theory Spec2Isabelle
  imports Complex_Main "HOL-Library.Word"
begin

section \<open>Machine values\<close>

text \<open>
  \<open>uint8_t\<close> is an 8-bit word. C++ \<open>int\<close> values are integers; the surface invariant
  \<open>surface_ok\<close> below keeps every pixel index inside the range of a 32-bit \<open>int\<close>, so no
  index computation of an in-bounds pixel overflows.

  A \<open>float\<close> is either NaN or a real number. Comparisons follow IEEE 754: every ordered
  comparison with NaN is false, and \<open>z == z\<close> is false exactly for NaN. Arithmetic is
  exact: rounding to 24 bits and overflow to infinity are not modelled.
\<close>

type_synonym u8 = "8 word"

definition INT_MAX :: int where
  "INT_MAX = 2147483647"

definition INT_MIN :: int where
  "INT_MIN = - 2147483648"

datatype float32 = NaN | Fl real

fun fadd :: "float32 \<Rightarrow> float32 \<Rightarrow> float32" where
  "fadd (Fl a) (Fl b) = Fl (a + b)"
| "fadd _ _ = NaN"

fun fsub :: "float32 \<Rightarrow> float32 \<Rightarrow> float32" where
  "fsub (Fl a) (Fl b) = Fl (a - b)"
| "fsub _ _ = NaN"

fun fmul :: "float32 \<Rightarrow> float32 \<Rightarrow> float32" where
  "fmul (Fl a) (Fl b) = Fl (a * b)"
| "fmul _ _ = NaN"

text \<open>Division by zero gives an infinity or NaN in IEEE 754; every divisor in the code
  modelled here is guarded away from zero, and the model returns NaN there.\<close>

fun fdiv :: "float32 \<Rightarrow> float32 \<Rightarrow> float32" where
  "fdiv (Fl a) (Fl b) = (if b = 0 then NaN else Fl (a / b))"
| "fdiv _ _ = NaN"

fun fneg :: "float32 \<Rightarrow> float32" where
  "fneg (Fl a) = Fl (- a)"
| "fneg NaN = NaN"


fun flt :: "float32 \<Rightarrow> float32 \<Rightarrow> bool" where
  "flt (Fl a) (Fl b) = (a < b)"
| "flt _ _ = False"


definition fgt :: "float32 \<Rightarrow> float32 \<Rightarrow> bool" where
  "fgt a b = flt b a"


fun feq :: "float32 \<Rightarrow> float32 \<Rightarrow> bool" where
  "feq (Fl a) (Fl b) = (a = b)"
| "feq _ _ = False"

text \<open>\<open>std::min(a, b)\<close> is \<open>(b < a) ? b : a\<close> and \<open>std::max(a, b)\<close> is
  \<open>(a < b) ? b : a\<close>.\<close>

definition fmin :: "float32 \<Rightarrow> float32 \<Rightarrow> float32" where
  "fmin a b = (if flt b a then b else a)"

definition fmax :: "float32 \<Rightarrow> float32 \<Rightarrow> float32" where
  "fmax a b = (if flt a b then b else a)"

definition float_of_int :: "int \<Rightarrow> float32" where
  "float_of_int i = Fl (of_int i)"

definition float_of_u8 :: "u8 \<Rightarrow> float32" where
  "float_of_u8 c = Fl (of_int (uint c))"

text \<open>Conversions of a \<open>float\<close> to an integer. Converting NaN is undefined in C++; the
  model returns \<open>INT_MIN\<close>, the "integer indefinite" value of x86. \<open>std::lround\<close> rounds
  halfway cases away from zero.\<close>

fun ffloor :: "float32 \<Rightarrow> int" where
  "ffloor (Fl a) = \<lfloor>a\<rfloor>"
| "ffloor NaN = INT_MIN"

fun fceil :: "float32 \<Rightarrow> int" where
  "fceil (Fl a) = \<lceil>a\<rceil>"
| "fceil NaN = INT_MIN"

fun lround :: "float32 \<Rightarrow> int" where
  "lround (Fl a) = (if 0 \<le> a then \<lfloor>a + 1 / 2\<rfloor> else \<lceil>a - 1 / 2\<rceil>)"
| "lround NaN = INT_MIN"

definition clampf :: "float32 \<Rightarrow> float32 \<Rightarrow> float32 \<Rightarrow> float32" where
  "clampf v a b = fmax a (fmin b v)"

definition clampi :: "int \<Rightarrow> int \<Rightarrow> int \<Rightarrow> int" where
  "clampi v a b = max a (min b v)"

definition to_u8 :: "float32 \<Rightarrow> u8" where
  "to_u8 v01 = (let v = lround (fmul (clampf v01 (Fl 0) (Fl 1)) (Fl 255))
                in word_of_int (clampi v 0 255))"

definition idx_rgba :: "int \<Rightarrow> int \<Rightarrow> int \<Rightarrow> nat" where
  "idx_rgba w x y = nat ((y * w + x) * 4)"

section \<open>Engine data\<close>

record Color =
  red :: u8
  green :: u8
  blue :: u8
  alpha :: u8

text \<open>\<open>Color c{}\<close>: the default member initialisers of \<open>struct Color\<close>.\<close>

definition Color_default :: Color where
  "Color_default = \<lparr>red = 0, green = 0, blue = 0, alpha = 255\<rparr>"

datatype BlendMode = Overwrite | Alpha | Additive | Multiply

record BloomSettings =
  bloom_enabled :: bool
  threshold :: float32
  intensity :: float32
  downsample :: int
  sigma :: float32

record ToneSettings =
  tone_enabled :: bool
  exposure :: float32
  gamma :: float32

record PostProcessSettings =
  bloom_s :: BloomSettings
  tone_s :: ToneSettings

record BloomBuffers =
  bloom_w :: int
  bloom_h :: int
  bloom_a :: "float32 list"
  bloom_b :: "float32 list"
  bloom_tmp :: "float32 list"
  kernel :: "float32 list"
  radius :: int

text \<open>The part of \<open>struct State\<close> (the global \<open>g\<close>) that the rasterizer and the
  post-processor read and write: the CPU framebuffer, the clip rectangle, the blend mode,
  the dirty rectangle and the post-processing buffers.\<close>

record State =
  fb_w :: int
  fb_h :: int
  color :: "u8 list"
  depth_on :: bool
  depth :: "float32 list"
  clip_on :: bool
  clip_x :: int
  clip_y :: int
  clip_w :: int
  clip_h :: int
  blend :: BlendMode
  dirty_on :: bool
  dirty_empty :: bool
  dirty_minx :: int
  dirty_miny :: int
  dirty_maxx :: int
  dirty_maxy :: int
  post :: PostProcessSettings
  post_out :: "u8 list"
  bloom :: BloomBuffers

text \<open>The invariant that \<open>resize_framebuffer\<close> and \<open>enable_depth\<close> establish: at least
  one pixel, a color buffer of \<open>fb_w * fb_h * 4\<close> bytes whose indices fit an \<open>int\<close>, and a
  depth buffer of \<open>fb_w * fb_h\<close> floats when depth testing is on.\<close>

definition surface_ok :: "State \<Rightarrow> bool" where
  "surface_ok g \<longleftrightarrow>
     1 \<le> fb_w g \<and> 1 \<le> fb_h g \<and> fb_w g * fb_h g * 4 \<le> INT_MAX \<and>
     length (color g) = nat (fb_w g * fb_h g * 4) \<and>
     (depth_on g \<longrightarrow> length (depth g) = nat (fb_w g * fb_h g))"

definition in_bounds :: "State \<Rightarrow> int \<Rightarrow> int \<Rightarrow> bool" where
  "in_bounds g x y \<longleftrightarrow> \<not> (x < 0 \<or> y < 0 \<or> x \<ge> fb_w g \<or> y \<ge> fb_h g)"

section \<open>Dirty rectangle, clip test\<close>

definition dirty_add :: "State \<Rightarrow> int \<Rightarrow> int \<Rightarrow> State" where
  "dirty_add g x y =
     (if \<not> dirty_on g then g
      else if x < 0 \<or> y < 0 \<or> x \<ge> fb_w g \<or> y \<ge> fb_h g then g
      else if dirty_empty g then
        g\<lparr>dirty_minx := x, dirty_maxx := x, dirty_miny := y, dirty_maxy := y,
          dirty_empty := False\<rparr>
      else
        g\<lparr>dirty_minx := min (dirty_minx g) x, dirty_miny := min (dirty_miny g) y,
          dirty_maxx := max (dirty_maxx g) x, dirty_maxy := max (dirty_maxy g) y\<rparr>)"


definition in_clip :: "State \<Rightarrow> int \<Rightarrow> int \<Rightarrow> bool" where
  "in_clip g x y =
     (if \<not> clip_on g then True
      else x \<ge> clip_x g \<and> y \<ge> clip_y g \<and>
           x < clip_x g + clip_w g \<and> y < clip_y g + clip_h g)"

section \<open>Blend write\<close>

definition blend_chan :: "float32 \<Rightarrow> u8 \<Rightarrow> u8 \<Rightarrow> u8" where
  "blend_chan sa sc dc =
     (let s = fdiv (float_of_u8 sc) (Fl 255);
          d = fdiv (float_of_u8 dc) (Fl 255);
          ov = fadd (fmul s sa) (fmul d (fsub (Fl 1) sa))
      in word_of_int (clampi (lround (fmul ov (Fl 255))) 0 255))"

definition blend_out :: "BlendMode \<Rightarrow> Color \<Rightarrow> Color \<Rightarrow> Color" where
  "blend_out m src dst =
     (case m of
        Overwrite \<Rightarrow> src
      | Alpha \<Rightarrow>
          (let sa = fdiv (float_of_u8 (alpha src)) (Fl 255);
               da = fdiv (float_of_u8 (alpha dst)) (Fl 255);
               oa = fadd sa (fmul da (fsub (Fl 1) sa))
           in \<lparr>red = blend_chan sa (red src) (red dst),
               green = blend_chan sa (green src) (green dst),
               blue = blend_chan sa (blue src) (blue dst),
               alpha = word_of_int (clampi (lround (fmul oa (Fl 255))) 0 255)\<rparr>)
      | Additive \<Rightarrow>
          \<lparr>red = word_of_int (clampi (uint (red dst) + uint (red src)) 0 255),
           green = word_of_int (clampi (uint (green dst) + uint (green src)) 0 255),
           blue = word_of_int (clampi (uint (blue dst) + uint (blue src)) 0 255),
           alpha = 255\<rparr>
      | Multiply \<Rightarrow>
          \<lparr>red = word_of_int ((uint (red dst) * uint (red src)) div 255),
           green = word_of_int ((uint (green dst) * uint (green src)) div 255),
           blue = word_of_int ((uint (blue dst) * uint (blue src)) div 255),
           alpha = 255\<rparr>)"

definition write_pixel :: "State \<Rightarrow> int \<Rightarrow> int \<Rightarrow> Color \<Rightarrow> State" where
  "write_pixel g x y src =
     (if x < 0 \<or> y < 0 \<or> x \<ge> fb_w g \<or> y \<ge> fb_h g then g
      else if \<not> in_clip g x y then g
      else
        let i = idx_rgba (fb_w g) x y;
            dst = \<lparr>red = color g ! (i + 0), green = color g ! (i + 1),
                   blue = color g ! (i + 2), alpha = color g ! (i + 3)\<rparr>;
            out = blend_out (blend g) src dst;
            g' = g\<lparr>color := (color g)[i + 0 := red out, i + 1 := green out,
                                      i + 2 := blue out, i + 3 := alpha out]\<rparr>
        in dirty_add g' x y)"

definition set_pixel :: "State \<Rightarrow> int \<Rightarrow> int \<Rightarrow> Color \<Rightarrow> State" where
  "set_pixel g x y c = write_pixel g x y c"

definition get_pixel :: "State \<Rightarrow> int \<Rightarrow> int \<Rightarrow> Color" where
  "get_pixel g x y =
     (if x < 0 \<or> y < 0 \<or> x \<ge> fb_w g \<or> y \<ge> fb_h g then Color_default
      else
        let i = idx_rgba (fb_w g) x y
        in \<lparr>red = color g ! (i + 0), green = color g ! (i + 1),
            blue = color g ! (i + 2), alpha = color g ! (i + 3)\<rparr>)"

section \<open>Depth test\<close>

text \<open>The function returns its \<open>bool\<close> together with the state, whose depth buffer it
  may have written.\<close>

definition depth_test_write :: "State \<Rightarrow> int \<Rightarrow> int \<Rightarrow> float32 \<Rightarrow> bool \<times> State" where
  "depth_test_write g x y z01 =
     (if \<not> depth_on g then (True, g)
      else if x < 0 \<or> y < 0 \<or> x \<ge> fb_w g \<or> y \<ge> fb_h g then (False, g)
      else if \<not> in_clip g x y then (False, g)
      else if \<not> feq z01 z01 then (False, g)
      else
        let idx = nat (y * fb_w g + x)
        in if flt z01 (depth g ! idx)
           then (True, g\<lparr>depth := (depth g)[idx := z01]\<rparr>)
           else (False, g))"

text \<open>The stored depth of pixel \<open>(x, y)\<close>: \<open>g.depth[y * g.fb_w + x]\<close>.\<close>

definition depth_at :: "State \<Rightarrow> int \<Rightarrow> int \<Rightarrow> float32" where
  "depth_at g x y = depth g ! nat (y * fb_w g + x)"

section \<open>A concrete surface\<close>

text \<open>A surface of two pixels in one row, with the default post-processing settings of
  \<open>Engine.h\<close> except that bloom and tone mapping are switched off.\<close>

definition demo_post :: PostProcessSettings where
  "demo_post =
     \<lparr>bloom_s = \<lparr>bloom_enabled = False, threshold = Fl (3 / 4), intensity = Fl (5 / 4),
                 downsample = 4, sigma = Fl 6\<rparr>,
      tone_s = \<lparr>tone_enabled = False, exposure = Fl (5 / 4), gamma = Fl (11 / 5)\<rparr>\<rparr>"

definition demo_bloom :: BloomBuffers where
  "demo_bloom = \<lparr>bloom_w = 0, bloom_h = 0, bloom_a = [], bloom_b = [], bloom_tmp = [],
                  kernel = [], radius = 0\<rparr>"

definition demo_surface :: State where
  "demo_surface =
     \<lparr>fb_w = 2, fb_h = 1, color = [10, 20, 30, 255, 200, 100, 50, 255],
      depth_on = True, depth = [Fl 1, Fl (1 / 2)],
      clip_on = False, clip_x = 0, clip_y = 0, clip_w = 0, clip_h = 0,
      blend = Overwrite,
      dirty_on = True, dirty_empty = True,
      dirty_minx = 0, dirty_miny = 0, dirty_maxx = 0, dirty_maxy = 0,
      post = demo_post, post_out = [], bloom = demo_bloom\<rparr>"

section \<open>Resizing and clearing\<close>

text \<open>\<open>for (int i = a; i < b; ++i)\<close> runs its body over \<open>[a..b - 1]\<close>, in order.
  \<open>color.assign(n, 0)\<close> is \<open>replicate n 0\<close>; the size \<open>(size_t)new_w * new_h * 4\<close> is
  computed in \<open>size_t\<close>. \<open>bloom.reset()\<close> empties the bloom buffers. The presenter texture
  that the function recreates is not part of the modelled state.\<close>

definition bloom_reset :: "BloomBuffers \<Rightarrow> BloomBuffers" where
  "bloom_reset bb = bb\<lparr>bloom_w := 0, bloom_h := 0, bloom_a := [], bloom_b := [],
                       bloom_tmp := [], kernel := [], radius := 0\<rparr>"

definition resize_framebuffer :: "State \<Rightarrow> int \<Rightarrow> int \<Rightarrow> State" where
  "resize_framebuffer g new_w0 new_h0 =
     (let new_w = max 1 new_w0;
          new_h = max 1 new_h0;
          c0 = replicate (nat (new_w * new_h * 4)) (0 :: u8);
          c1 = fold (\<lambda>y c. fold (\<lambda>x c. c[idx_rgba new_w x y + 3 := 255]) [0..new_w - 1] c)
                 [0..new_h - 1] c0;
          d1 = (if depth_on g then replicate (nat (new_w * new_h)) (Fl 1) else depth g)
      in g\<lparr>fb_w := new_w, fb_h := new_h, color := c1, depth := d1, post_out := [],
           bloom := bloom_reset (bloom g), dirty_empty := True\<rparr>)"

definition enable_depth :: "State \<Rightarrow> bool \<Rightarrow> State" where
  "enable_depth g enabled =
     (if enabled
      then g\<lparr>depth_on := enabled, depth := replicate (nat (fb_w g * fb_h g)) (Fl 1)\<rparr>
      else g\<lparr>depth_on := enabled, depth := []\<rparr>)"

section \<open>Post-processing\<close>

fun fexp :: "float32 \<Rightarrow> float32" where
  "fexp (Fl a) = Fl (exp a)"
| "fexp NaN = NaN"

text \<open>\<open>std::pow\<close> is only called on a base clamped to \<open>[0, 1]\<close>.\<close>

fun fpow :: "float32 \<Rightarrow> float32 \<Rightarrow> float32" where
  "fpow (Fl a) (Fl b) = (if a < 0 then NaN else Fl (a powr b))"
| "fpow _ _ = NaN"

text \<open>The kernel loop stores \<open>exp (-(i * i) * inv2s2)\<close> at index \<open>i + radius\<close> for
  \<open>i = -radius, ..., radius\<close> and adds it to \<open>sum\<close>; the second loop divides every entry by
  \<open>sum\<close>. The function returns the kernel and the radius it writes through its reference
  parameters.\<close>

definition build_gaussian_kernel :: "float32 \<Rightarrow> float32 list \<times> int" where
  "build_gaussian_kernel sigma0 =
     (let sg = fmax (Fl (1 / 10)) sigma0;
          rad = clampi (fceil (fmul (Fl 3) sg)) 1 32;
          inv2s2 = fdiv (Fl 1) (fmul (fmul (Fl 2) sg) sg);
          ws = map (\<lambda>i. fexp (fmul (fneg (float_of_int (i * i))) inv2s2)) [- rad..rad];
          sm = fold (\<lambda>w s. fadd s w) ws (Fl 0)
      in (map (\<lambda>w. fdiv w sm) ws, rad))"

definition bloom_ensure_buffers :: "State \<Rightarrow> int \<Rightarrow> int \<Rightarrow> State" where
  "bloom_ensure_buffers g w h =
     (if bloom_w (bloom g) = w \<and> bloom_h (bloom g) = h \<and>
         bloom_a (bloom g) \<noteq> [] \<and> bloom_b (bloom g) \<noteq> []
      then g
      else g\<lparr>bloom := (bloom g)\<lparr>bloom_w := w, bloom_h := h,
                bloom_a := replicate (nat (w * h * 3)) (Fl 0),
                bloom_b := replicate (nat (w * h * 3)) (Fl 0)\<rparr>\<rparr>)"

text \<open>One source pixel of a block: the running sums \<open>r, gc, b\<close> and \<open>count\<close>.\<close>

definition brightpass_pixel ::
  "State \<Rightarrow> float32 \<Rightarrow> int \<Rightarrow> int \<Rightarrow> float32 \<times> float32 \<times> float32 \<times> int
     \<Rightarrow> float32 \<times> float32 \<times> float32 \<times> int" where
  "brightpass_pixel g thr x y acc =
     (case acc of (r, gc, b, count) \<Rightarrow>
        let i = idx_rgba (fb_w g) x y;
            fr = fdiv (float_of_u8 (color g ! (i + 0))) (Fl 255);
            fg = fdiv (float_of_u8 (color g ! (i + 1))) (Fl 255);
            fb = fdiv (float_of_u8 (color g ! (i + 2))) (Fl 255);
            lum = fadd (fadd (fmul (Fl (2126 / 10000)) fr) (fmul (Fl (7152 / 10000)) fg))
                       (fmul (Fl (722 / 10000)) fb);
            k = fsub lum thr
        in if fgt k (Fl 0)
           then let k' = fdiv k (fmax (Fl (1 / 1000000)) (fsub (Fl 1) thr))
                in (fadd r (fmul fr k'), fadd gc (fmul fg k'), fadd b (fmul fb k'), count + 1)
           else (r, gc, b, count + 1))"

text \<open>The two inner loops over a block leave at the first row or column outside the
  framebuffer (\<open>break\<close> before any effect of the iteration): they run over the leading
  offsets that are inside.\<close>

definition brightpass_block ::
  "State \<Rightarrow> float32 \<Rightarrow> int \<Rightarrow> int \<Rightarrow> int \<Rightarrow> float32 \<times> float32 \<times> float32" where
  "brightpass_block g thr ds bx by =
     (let x0 = bx * ds;
          y0 = by * ds;
          acc = fold (\<lambda>oy acc.
                   fold (\<lambda>ox acc. brightpass_pixel g thr (x0 + ox) (y0 + oy) acc)
                     (takeWhile (\<lambda>ox. \<not> x0 + ox \<ge> fb_w g) [0..ds - 1]) acc)
                  (takeWhile (\<lambda>oy. \<not> y0 + oy \<ge> fb_h g) [0..ds - 1])
                  (Fl 0, Fl 0, Fl 0, 0)
      in case acc of (r, gc, b, count) \<Rightarrow>
           if count > 0
           then (fdiv r (float_of_int count), fdiv gc (float_of_int count),
                 fdiv b (float_of_int count))
           else (r, gc, b))"

text \<open>\<open>(g.fb_w + ds - 1) / ds\<close>: both operands are non-negative, where C++ division is
  \<open>div\<close>.\<close>

definition bloom_brightpass_downsample :: "State \<Rightarrow> BloomSettings \<Rightarrow> State" where
  "bloom_brightpass_downsample g0 bs =
     (let ds = max 2 (downsample bs);
          bw = (fb_w g0 + ds - 1) div ds;
          bh = (fb_h g0 + ds - 1) div ds;
          g = bloom_ensure_buffers g0 bw bh;
          thr = clampf (threshold bs) (Fl 0) (Fl 1);
          a' = fold (\<lambda>by a. fold (\<lambda>bx a.
                   case brightpass_block g thr ds bx by of (r, gc, b) \<Rightarrow>
                     let bi = nat ((by * bw + bx) * 3)
                     in a[bi + 0 := r, bi + 1 := gc, bi + 2 := b])
                 [0..bw - 1] a) [0..bh - 1] (bloom_a (bloom g))
      in g\<lparr>bloom := (bloom g)\<lparr>bloom_a := a'\<rparr>\<rparr>)"

text \<open>One output pixel of a blur pass: the weighted sum over \<open>k = -R, ..., R\<close> of the
  source samples, whose index is given by \<open>si\<close>.\<close>

definition blur_tap ::
  "float32 list \<Rightarrow> float32 list \<Rightarrow> int \<Rightarrow> (int \<Rightarrow> nat) \<Rightarrow> float32 \<times> float32 \<times> float32" where
  "blur_tap src K R si =
     fold (\<lambda>k (rr, gg, bb).
             let w = K ! nat (k + R)
             in (fadd rr (fmul (src ! (si k + 0)) w),
                 fadd gg (fmul (src ! (si k + 1)) w),
                 fadd bb (fmul (src ! (si k + 2)) w)))
       [- R..R] (Fl 0, Fl 0, Fl 0)"

definition blur_pass ::
  "float32 list \<Rightarrow> float32 list \<Rightarrow> float32 list \<Rightarrow> int \<Rightarrow> int \<Rightarrow> int
     \<Rightarrow> (int \<Rightarrow> int \<Rightarrow> int \<Rightarrow> nat) \<Rightarrow> float32 list" where
  "blur_pass src dst K R bw bh si =
     fold (\<lambda>y d. fold (\<lambda>x d.
             case blur_tap src K R (si x y) of (rr, gg, bb) \<Rightarrow>
               let di = nat ((y * bw + x) * 3)
               in d[di + 0 := rr, di + 1 := gg, di + 2 := bb])
           [0..bw - 1] d) [0..bh - 1] dst"

definition bloom_blur_separable :: "State \<Rightarrow> BloomSettings \<Rightarrow> State" where
  "bloom_blur_separable g bs =
     (let bw = bloom_w (bloom g);
          bh = bloom_h (bloom g)
      in if bw \<le> 0 \<or> bh \<le> 0 then g
         else
           case build_gaussian_kernel (sigma bs) of (K, R) \<Rightarrow>
             let b' = blur_pass (bloom_a (bloom g)) (bloom_b (bloom g)) K R bw bh
                        (\<lambda>x y k. nat ((y * bw + clampi (x + k) 0 (bw - 1)) * 3));
                 a' = blur_pass b' (bloom_a (bloom g)) K R bw bh
                        (\<lambda>x y k. nat ((clampi (y + k) 0 (bh - 1) * bw + x) * 3))
             in g\<lparr>bloom := (bloom g)\<lparr>kernel := K, radius := R, bloom_b := b',
                                      bloom_a := a'\<rparr>\<rparr>)"

definition bloom_fetch :: "State \<Rightarrow> int \<Rightarrow> int \<Rightarrow> float32 \<times> float32 \<times> float32" where
  "bloom_fetch g x y =
     (let i = nat ((y * bloom_w (bloom g) + x) * 3)
      in (bloom_a (bloom g) ! (i + 0), bloom_a (bloom g) ! (i + 1),
          bloom_a (bloom g) ! (i + 2)))"

definition lerp :: "float32 \<Rightarrow> float32 \<Rightarrow> float32 \<Rightarrow> float32" where
  "lerp p q t = fadd (fmul p (fsub (Fl 1) t)) (fmul q t)"

definition bloom_sample_bilinear ::
  "State \<Rightarrow> float32 \<Rightarrow> float32 \<Rightarrow> float32 \<times> float32 \<times> float32" where
  "bloom_sample_bilinear g u0 v0 =
     (let bw = bloom_w (bloom g);
          bh = bloom_h (bloom g)
      in if bw \<le> 0 \<or> bh \<le> 0 then (Fl 0, Fl 0, Fl 0)
         else
           let u = clampf u0 (Fl 0) (float_of_int (bw - 1));
               v = clampf v0 (Fl 0) (float_of_int (bh - 1));
               x0 = ffloor u;
               y0 = ffloor v;
               x1 = clampi (x0 + 1) 0 (bw - 1);
               y1 = clampi (y0 + 1) 0 (bh - 1);
               tx = fsub u (float_of_int x0);
               ty = fsub v (float_of_int y0)
           in case (bloom_fetch g x0 y0, bloom_fetch g x1 y0,
                    bloom_fetch g x0 y1, bloom_fetch g x1 y1) of
                ((r00, g00, b00), (r10, g10, b10), (r01, g01, b01), (r11, g11, b11)) \<Rightarrow>
                  (lerp (lerp r00 r10 tx) (lerp r01 r11 tx) ty,
                   lerp (lerp g00 g10 tx) (lerp g01 g11 tx) ty,
                   lerp (lerp b00 b10 tx) (lerp b01 b11 tx) ty))"

text \<open>\<open>build_postprocess_output\<close> returns a pointer to one of two buffers of the state:
  \<open>g.color.data()\<close> or \<open>g.post_out.data()\<close>. The model returns which one, with the state.\<close>

datatype OutBuffer = ColorData | PostOutData

definition buffer_bytes :: "OutBuffer \<Rightarrow> State \<Rightarrow> u8 list" where
  "buffer_bytes p g = (case p of ColorData \<Rightarrow> color g | PostOutData \<Rightarrow> post_out g)"

text \<open>\<open>std::vector::resize\<close>: keeps the leading elements, fills with zeros.\<close>

definition vec_resize :: "u8 list \<Rightarrow> nat \<Rightarrow> u8 list" where
  "vec_resize xs n = take n xs @ replicate (n - length xs) 0"

definition tone_map :: "float32 \<Rightarrow> float32 \<Rightarrow> float32 \<Rightarrow> float32" where
  "tone_map c expo invGamma =
     fpow (clampf (fsub (Fl 1) (fexp (fmul (fneg c) expo))) (Fl 0) (Fl 1)) invGamma"

definition postprocess_pixel :: "State \<Rightarrow> int \<Rightarrow> int \<Rightarrow> u8 list \<Rightarrow> u8 list" where
  "postprocess_pixel g x y out =
     (let bloom_on = bloom_enabled (bloom_s (post g));
          tone_on = tone_enabled (tone_s (post g));
          expo = fmax (Fl (1 / 10000)) (exposure (tone_s (post g)));
          gam = fmax (Fl (1 / 10)) (gamma (tone_s (post g)));
          invGamma = fdiv (Fl 1) gam;
          ds = max 2 (downsample (bloom_s (post g)));
          bloom_intensity = intensity (bloom_s (post g));
          i = idx_rgba (fb_w g) x y;
          r0 = fdiv (float_of_u8 (color g ! (i + 0))) (Fl 255);
          g0 = fdiv (float_of_u8 (color g ! (i + 1))) (Fl 255);
          b0 = fdiv (float_of_u8 (color g ! (i + 2))) (Fl 255);
          (r1, g1, b1) =
            (if bloom_on
             then let bu = fsub (fdiv (fadd (float_of_int x) (Fl (1 / 2))) (float_of_int ds))
                                (Fl (1 / 2));
                      bv = fsub (fdiv (fadd (float_of_int y) (Fl (1 / 2))) (float_of_int ds))
                                (Fl (1 / 2))
                  in case bloom_sample_bilinear g bu bv of (br, bg, bb) \<Rightarrow>
                       (fadd r0 (fmul br bloom_intensity), fadd g0 (fmul bg bloom_intensity),
                        fadd b0 (fmul bb bloom_intensity))
             else (r0, g0, b0));
          (r2, g2, b2) =
            (if tone_on
             then (tone_map r1 expo invGamma, tone_map g1 expo invGamma,
                   tone_map b1 expo invGamma)
             else (r1, g1, b1))
      in out[i + 0 := to_u8 r2, i + 1 := to_u8 g2, i + 2 := to_u8 b2, i + 3 := 255])"

definition build_postprocess_output :: "State \<Rightarrow> bool \<Rightarrow> OutBuffer \<times> State" where
  "build_postprocess_output g0 apply_post =
     (if \<not> apply_post then (ColorData, g0)
      else
        let bloom_on = bloom_enabled (bloom_s (post g0));
            tone_on = tone_enabled (tone_s (post g0))
        in if \<not> bloom_on \<and> \<not> tone_on then (ColorData, g0)
           else
             let g1 = g0\<lparr>post_out := vec_resize (post_out g0) (nat (fb_w g0 * fb_h g0 * 4))\<rparr>;
                 g2 = (if bloom_on
                       then bloom_blur_separable
                              (bloom_brightpass_downsample g1 (bloom_s (post g1)))
                              (bloom_s (post g1))
                       else g1);
                 out = fold (\<lambda>y out. fold (\<lambda>x out. postprocess_pixel g2 x y out)
                               [0..fb_w g2 - 1] out)
                         [0..fb_h g2 - 1] (post_out g2)
             in (PostOutData, g2\<lparr>post_out := out, dirty_empty := True\<rparr>))"

section \<open>Triangles\<close>























section \<open>3D mesh pipeline\<close>

















section \<open>Auxiliary notions for the bloom proofs\<close>

text \<open>Writing \<open>f i\<close> at every index \<open>i\<close> of a list of indices, in order.\<close>

definition upd_all :: "(nat \<Rightarrow> 'a) \<Rightarrow> nat list \<Rightarrow> 'a list \<Rightarrow> 'a list" where
  "upd_all f js = fold (\<lambda>i c. c[i := f i]) js"






section \<open>Pixel indices\<close>

lemma pixel_index_lt:
  assumes "0 \<le> x" "x < w" "0 \<le> y" "y < h"
  shows "y * w + x < w * (h::int)" and "0 \<le> y * w + x"
proof -
  have "y * w \<le> (h - 1) * w" using assms by (intro mult_right_mono) auto
  then show "y * w + x < w * h" using assms by (simp add: algebra_simps)
  show "0 \<le> y * w + x" using assms by simp
qed

lemma pixel_index_inj:
  assumes "0 \<le> x" "x < w" "0 \<le> y" "0 \<le> x'" "x' < w" "0 \<le> y'"
    and "y * w + x = y' * w + (x'::int)"
  shows "x = x' \<and> y = y'"
proof -
  have "(y * w + x) mod w = x mod w" "(y' * w + x') mod w = x' mod w" by simp_all
  moreover have "x mod w = x" "x' mod w = x'" using assms by simp_all
  ultimately have xx: "x = x'" using assms(7) by simp
  then have "y * w = y' * w" using assms(7) by simp
  then have "y = y'" using assms(1,2) by simp
  with xx show ?thesis by simp
qed

lemma idx_rgba_in_range:
  assumes "surface_ok g" "in_bounds g x y"
  shows "idx_rgba (fb_w g) x y + 3 < length (color g)"
proof -
  have b: "0 \<le> x" "x < fb_w g" "0 \<le> y" "y < fb_h g"
    using assms(2) by (auto simp: in_bounds_def)
  have "y * fb_w g + x < fb_w g * fb_h g" "0 \<le> y * fb_w g + x"
    using pixel_index_lt[OF b] by auto
  then show ?thesis
    using assms(1) by (simp add: surface_ok_def idx_rgba_def nat_less_iff nat_add_distrib)
qed

lemma surface_ok_demo: "surface_ok demo_surface"
  by (simp add: surface_ok_def demo_surface_def INT_MAX_def)

lemma in_bounds_demo: "in_bounds demo_surface 1 0"
  by (simp add: in_bounds_def demo_surface_def)

lemma in_clip_demo: "in_clip demo_surface x y"
  by (simp add: in_clip_def demo_surface_def)

section \<open>Writing and reading a pixel\<close>

text \<open>Reading back the pixel just written gives the blend of the source with the pixel
  that was there.\<close>

lemma get_write_pixel:
  assumes "surface_ok g" "in_bounds g x y" "in_clip g x y"
  shows "get_pixel (write_pixel g x y c) x y = blend_out (blend g) c (get_pixel g x y)"
proof -
  have r: "idx_rgba (fb_w g) x y + 3 < length (color g)"
    using idx_rgba_in_range[OF assms(1,2)] .
  show ?thesis
    using assms(2,3) r
    by (simp add: get_pixel_def write_pixel_def in_bounds_def Let_def dirty_add_def)
qed

text \<open>C2: on a well-formed surface, for an in-bounds pixel inside the clip rectangle and
  blend mode Overwrite, \<open>set_pixel\<close> followed by \<open>get_pixel\<close> at the same pixel returns the
  color written, in all four channels.\<close>

theorem write_then_read_overwrite:
  assumes "surface_ok g" "in_bounds g x y" "in_clip g x y" "blend g = Overwrite"
  shows "get_pixel (set_pixel g x y c) x y = c"
  using get_write_pixel[OF assms(1-3)] assms(4) by (simp add: set_pixel_def blend_out_def)

theorem write_then_read_overwrite_witness:
  "surface_ok demo_surface \<and> in_bounds demo_surface 1 0 \<and> in_clip demo_surface 1 0 \<and>
   blend demo_surface = Overwrite \<and>
   get_pixel (set_pixel demo_surface 1 0 \<lparr>red = 1, green = 2, blue = 3, alpha = 4\<rparr>) 1 0
     = \<lparr>red = 1, green = 2, blue = 3, alpha = 4\<rparr>"
proof -
  have d: "blend demo_surface = Overwrite" by (simp add: demo_surface_def)
  show ?thesis
    using write_then_read_overwrite[OF surface_ok_demo in_bounds_demo in_clip_demo d]
      surface_ok_demo in_bounds_demo in_clip_demo d by simp
qed

lemma uint_byte_of_int: "0 \<le> k \<Longrightarrow> k \<le> 255 \<Longrightarrow> uint (word_of_int k :: u8) = k"
  by (simp add: uint_word_of_int take_bit_int_eq_self)

lemma uint_u8_le: "uint (c :: u8) \<le> 255"
  using uint_bounded[of c] by simp

lemma additive_chan:
  "uint (word_of_int (clampi (uint (d::u8) + uint (s::u8)) 0 255) :: u8)
     = min (uint d + uint s) 255"
proof -
  have "0 \<le> clampi (uint d + uint s) 0 255" "clampi (uint d + uint s) 0 255 \<le> 255"
    by (simp_all add: clampi_def)
  then have "uint (word_of_int (clampi (uint d + uint s) 0 255) :: u8)
      = clampi (uint d + uint s) 0 255"
    by (rule uint_byte_of_int)
  then show ?thesis by (simp add: clampi_def)
qed

lemma multiply_chan:
  "uint (word_of_int ((uint (d::u8) * uint (s::u8)) div 255) :: u8)
     = (uint d * uint s) div 255"
proof -
  have "uint d * uint s \<le> 255 * 255"
    using uint_u8_le[of d] uint_u8_le[of s] by (intro mult_mono) auto
  then have "(uint d * uint s) div 255 \<le> 255" by simp
  moreover have "0 \<le> (uint d * uint s) div 255" by (simp add: pos_imp_zdiv_nonneg_iff)
  ultimately show ?thesis by (simp add: uint_byte_of_int)
qed

text \<open>C9: on a well-formed surface, for an in-bounds pixel inside the clip rectangle with
  stored color \<open>d\<close> and a source color \<open>s\<close>: under Additive, \<open>write_pixel\<close> stores
  \<open>min (d.c + s.c) 255\<close> in the channels r, g, b and alpha 255; under Multiply it stores
  \<open>(d.c * s.c) div 255\<close> in r, g, b and alpha 255.\<close>

theorem write_pixel_additive_multiply:
  assumes "surface_ok g" "in_bounds g x y" "in_clip g x y"
  shows "(blend g = Additive \<longrightarrow>
           (let d = get_pixel g x y; ov = get_pixel (write_pixel g x y s) x y
            in uint (red ov) = min (uint (red d) + uint (red s)) 255 \<and>
               uint (green ov) = min (uint (green d) + uint (green s)) 255 \<and>
               uint (blue ov) = min (uint (blue d) + uint (blue s)) 255 \<and>
               uint (alpha ov) = 255)) \<and>
         (blend g = Multiply \<longrightarrow>
           (let d = get_pixel g x y; ov = get_pixel (write_pixel g x y s) x y
            in uint (red ov) = (uint (red d) * uint (red s)) div 255 \<and>
               uint (green ov) = (uint (green d) * uint (green s)) div 255 \<and>
               uint (blue ov) = (uint (blue d) * uint (blue s)) div 255 \<and>
               uint (alpha ov) = 255))"
  using get_write_pixel[OF assms]
  by (simp add: Let_def blend_out_def additive_chan multiply_chan)

theorem write_pixel_additive_multiply_witness:
  "surface_ok (demo_surface\<lparr>blend := Additive\<rparr>) \<and>
   in_bounds (demo_surface\<lparr>blend := Additive\<rparr>) 1 0 \<and>
   in_clip (demo_surface\<lparr>blend := Additive\<rparr>) 1 0 \<and>
   blend (demo_surface\<lparr>blend := Additive\<rparr>) = Additive \<and>
   get_pixel (demo_surface\<lparr>blend := Additive\<rparr>) 1 0
     = \<lparr>red = 200, green = 100, blue = 50, alpha = 255\<rparr> \<and>
   uint (red (get_pixel (write_pixel (demo_surface\<lparr>blend := Additive\<rparr>) 1 0
      \<lparr>red = 100, green = 100, blue = 100, alpha = 7\<rparr>) 1 0)) = 255 \<and>
   uint (green (get_pixel (write_pixel (demo_surface\<lparr>blend := Additive\<rparr>) 1 0
      \<lparr>red = 100, green = 100, blue = 100, alpha = 7\<rparr>) 1 0)) = 200 \<and>
   uint (alpha (get_pixel (write_pixel (demo_surface\<lparr>blend := Additive\<rparr>) 1 0
      \<lparr>red = 100, green = 100, blue = 100, alpha = 7\<rparr>) 1 0)) = 255 \<and>
   surface_ok (demo_surface\<lparr>blend := Multiply\<rparr>) \<and>
   in_bounds (demo_surface\<lparr>blend := Multiply\<rparr>) 1 0 \<and>
   in_clip (demo_surface\<lparr>blend := Multiply\<rparr>) 1 0 \<and>
   blend (demo_surface\<lparr>blend := Multiply\<rparr>) = Multiply \<and>
   uint (red (get_pixel (write_pixel (demo_surface\<lparr>blend := Multiply\<rparr>) 1 0
      \<lparr>red = 100, green = 100, blue = 100, alpha = 7\<rparr>) 1 0)) = 78 \<and>
   uint (blue (get_pixel (write_pixel (demo_surface\<lparr>blend := Multiply\<rparr>) 1 0
      \<lparr>red = 100, green = 100, blue = 100, alpha = 7\<rparr>) 1 0)) = 19 \<and>
   uint (alpha (get_pixel (write_pixel (demo_surface\<lparr>blend := Multiply\<rparr>) 1 0
      \<lparr>red = 100, green = 100, blue = 100, alpha = 7\<rparr>) 1 0)) = 255"
proof -
  let ?a = "demo_surface\<lparr>blend := Additive\<rparr>"
  let ?m = "demo_surface\<lparr>blend := Multiply\<rparr>"
  let ?s = "\<lparr>red = 100, green = 100, blue = 100, alpha = 7\<rparr> :: Color"
  have a: "surface_ok ?a" "in_bounds ?a 1 0" "in_clip ?a 1 0"
    by (simp_all add: surface_ok_def in_bounds_def in_clip_def demo_surface_def INT_MAX_def)
  have m: "surface_ok ?m" "in_bounds ?m 1 0" "in_clip ?m 1 0"
    by (simp_all add: surface_ok_def in_bounds_def in_clip_def demo_surface_def INT_MAX_def)
  have da: "get_pixel ?a 1 0 = \<lparr>red = 200, green = 100, blue = 50, alpha = 255\<rparr>"
    by (simp add: get_pixel_def demo_surface_def idx_rgba_def)
  have dm: "get_pixel ?m 1 0 = \<lparr>red = 200, green = 100, blue = 50, alpha = 255\<rparr>"
    by (simp add: get_pixel_def demo_surface_def idx_rgba_def)
  show ?thesis
    using write_pixel_additive_multiply[OF a, of ?s] write_pixel_additive_multiply[OF m, of ?s]
      a m
    by (simp add: da dm Let_def)
qed

section \<open>Reading outside the surface\<close>

text \<open>C10: for a pixel outside \<open>[0, fb_w) \<times> [0, fb_h)\<close>, \<open>get_pixel\<close> returns opaque black,
  \<open>{r = 0, g = 0, b = 0, a = 255}\<close>. It is a function of the state alone and returns no new
  state: the source function assigns to nothing but its local \<open>c\<close>.\<close>

theorem get_pixel_out_of_bounds:
  assumes "\<not> in_bounds g x y"
  shows "get_pixel g x y = \<lparr>red = 0, green = 0, blue = 0, alpha = 255\<rparr>"
  using assms by (auto simp: get_pixel_def in_bounds_def Color_default_def)

theorem get_pixel_out_of_bounds_witness:
  "\<not> in_bounds demo_surface (- 1) 0 \<and> \<not> in_bounds demo_surface 2 0 \<and>
   get_pixel demo_surface (- 1) 0 = \<lparr>red = 0, green = 0, blue = 0, alpha = 255\<rparr> \<and>
   get_pixel demo_surface 2 0 = \<lparr>red = 0, green = 0, blue = 0, alpha = 255\<rparr>"
proof -
  have a: "\<not> in_bounds demo_surface (- 1) 0" by (simp add: in_bounds_def)
  have b: "\<not> in_bounds demo_surface 2 0" by (simp add: in_bounds_def demo_surface_def)
  show ?thesis
    using get_pixel_out_of_bounds[OF a] get_pixel_out_of_bounds[OF b] a b by simp
qed

section \<open>Depth test\<close>

lemma feq_refl_iff: "feq z z \<longleftrightarrow> z \<noteq> NaN"
  by (cases z) simp_all

text \<open>C1, as the code has it: with depth testing off, \<open>depth_test_write\<close> returns true and
  leaves the state alone. With depth testing on, it returns false and leaves the state alone
  when the pixel is outside the surface, outside the clip rectangle, or \<open>z\<close> is NaN;
  otherwise, if \<open>z\<close> is smaller than the stored depth of the pixel, it returns true, stores
  \<open>z\<close> at that pixel and changes nothing else, and if not it returns false and leaves the
  state alone.\<close>

theorem depth_test_write_cases:
  assumes ok: "surface_ok g"
  shows "depth_test_write g x y z =
     (if \<not> depth_on g then (True, g)
      else if \<not> in_bounds g x y \<or> \<not> in_clip g x y \<or> z = NaN then (False, g)
      else if flt z (depth_at g x y) then (True, snd (depth_test_write g x y z))
      else (False, g))
    \<and> (depth_on g \<and> in_bounds g x y \<and> in_clip g x y \<and> flt z (depth_at g x y) \<longrightarrow>
         depth_at (snd (depth_test_write g x y z)) x y = z \<and>
         (\<forall>x' y'. in_bounds g x' y' \<and> (x', y') \<noteq> (x, y) \<longrightarrow>
            depth_at (snd (depth_test_write g x y z)) x' y' = depth_at g x' y') \<and>
         (snd (depth_test_write g x y z))\<lparr>depth := depth g\<rparr> = g)"
proof (intro conjI impI)
  show "depth_test_write g x y z =
     (if \<not> depth_on g then (True, g)
      else if \<not> in_bounds g x y \<or> \<not> in_clip g x y \<or> z = NaN then (False, g)
      else if flt z (depth_at g x y) then (True, snd (depth_test_write g x y z))
      else (False, g))"
    by (auto simp: depth_test_write_def in_bounds_def feq_refl_iff depth_at_def Let_def)
next
  assume h: "depth_on g \<and> in_bounds g x y \<and> in_clip g x y \<and> flt z (depth_at g x y)"
  then have zn: "z \<noteq> NaN" by (cases z) auto
  have b: "0 \<le> x" "x < fb_w g" "0 \<le> y" "y < fb_h g"
    using h by (auto simp: in_bounds_def)
  have lt: "y * fb_w g + x < fb_w g * fb_h g" "0 \<le> y * fb_w g + x"
    using pixel_index_lt[OF b] by auto
  have len: "length (depth g) = nat (fb_w g * fb_h g)"
    using ok h by (simp add: surface_ok_def)
  have eq: "snd (depth_test_write g x y z)
      = g\<lparr>depth := (depth g)[nat (y * fb_w g + x) := z]\<rparr>"
    using h zn
    by (simp add: depth_test_write_def in_bounds_def feq_refl_iff depth_at_def Let_def)
  show "depth_at (snd (depth_test_write g x y z)) x y = z"
    using lt len by (simp add: eq depth_at_def nat_less_iff)
  show "(snd (depth_test_write g x y z))\<lparr>depth := depth g\<rparr> = g"
    by (simp add: eq)
  show "\<forall>x' y'. in_bounds g x' y' \<and> (x', y') \<noteq> (x, y) \<longrightarrow>
            depth_at (snd (depth_test_write g x y z)) x' y' = depth_at g x' y'"
  proof (intro allI impI)
    fix x' y' assume a: "in_bounds g x' y' \<and> (x', y') \<noteq> (x, y)"
    then have b': "0 \<le> x'" "x' < fb_w g" "0 \<le> y'" by (auto simp: in_bounds_def)
    have "y * fb_w g + x \<noteq> y' * fb_w g + x'"
      using pixel_index_inj[OF b(1,2,3) b'] a by auto
    moreover have "0 \<le> y' * fb_w g + x'" using b' b by simp
    ultimately have "nat (y * fb_w g + x) \<noteq> nat (y' * fb_w g + x')"
      using lt(2) by (simp add: nat_eq_iff)
    then show "depth_at (snd (depth_test_write g x y z)) x' y' = depth_at g x' y'"
      by (simp add: eq depth_at_def)
  qed
qed

theorem depth_test_write_cases_witness:
  "surface_ok demo_surface \<and> depth_on demo_surface \<and> in_bounds demo_surface 1 0 \<and>
   in_clip demo_surface 1 0 \<and> flt (Fl (1 / 4)) (depth_at demo_surface 1 0) \<and>
   in_bounds demo_surface 0 0 \<and>
   fst (depth_test_write demo_surface 1 0 (Fl (1 / 4))) = True \<and>
   depth_at (snd (depth_test_write demo_surface 1 0 (Fl (1 / 4)))) 1 0 = Fl (1 / 4) \<and>
   depth_at (snd (depth_test_write demo_surface 1 0 (Fl (1 / 4)))) 0 0 = Fl 1"
proof -
  have a: "depth_on demo_surface" "flt (Fl (1 / 4)) (depth_at demo_surface 1 0)"
    "in_bounds demo_surface 0 0" "depth_at demo_surface 0 0 = Fl 1"
    by (simp_all add: demo_surface_def depth_at_def in_bounds_def)
  let ?r = "depth_test_write demo_surface 1 0 (Fl (1 / 4))"
  have c: "?r = (True, snd ?r)" "depth_at (snd ?r) 1 0 = Fl (1 / 4)"
    "\<forall>x' y'. in_bounds demo_surface x' y' \<and> (x', y') \<noteq> (1, 0) \<longrightarrow>
        depth_at (snd ?r) x' y' = depth_at demo_surface x' y'"
    using depth_test_write_cases[OF surface_ok_demo, of 1 0 "Fl (1 / 4)"] a
      in_bounds_demo in_clip_demo
    by simp_all
  have "fst ?r = True" using c(1) by (metis fst_conv)
  moreover have "depth_at (snd ?r) 0 0 = Fl 1" using c(3) a(3,4) by auto
  ultimately show ?thesis
    using c(2) a surface_ok_demo in_bounds_demo in_clip_demo by simp
qed

text \<open>C1 as stated fails: with depth testing off the function returns true, not false.\<close>

theorem depth_test_write_off_counterexample:
  "\<not> depth_on (demo_surface\<lparr>depth_on := False, depth := []\<rparr>) \<and>
   fst (depth_test_write (demo_surface\<lparr>depth_on := False, depth := []\<rparr>) 0 0 (Fl (1 / 4)))
     = True"
  by (simp add: depth_test_write_def demo_surface_def)

text \<open>C8: on a well-formed surface with depth testing on, for an in-bounds pixel inside the
  clip rectangle, \<open>depth_test_write\<close> with a NaN depth returns false and leaves the state,
  and so the stored depth, unchanged; and whatever the depth passed, a depth buffer free of
  NaN stays free of NaN.\<close>

theorem depth_test_write_rejects_nan:
  assumes "surface_ok g" "depth_on g" "in_bounds g x y" "in_clip g x y"
  shows "depth_test_write g x y NaN = (False, g) \<and>
         (NaN \<notin> set (depth g) \<longrightarrow> NaN \<notin> set (depth (snd (depth_test_write g x y z))))"
proof (intro conjI impI)
  show "depth_test_write g x y NaN = (False, g)"
    using assms by (simp add: depth_test_write_def in_bounds_def)
  assume n: "NaN \<notin> set (depth g)"
  show "NaN \<notin> set (depth (snd (depth_test_write g x y z)))"
  proof (cases z)
    case NaN
    then show ?thesis using n by (simp add: depth_test_write_def)
  next
    case (Fl v)
    have "set ((depth g)[i := z]) \<subseteq> insert z (set (depth g))" for i
      by (rule set_update_subset_insert)
    then show ?thesis using n Fl
      by (auto simp: depth_test_write_def Let_def)
  qed
qed

theorem depth_test_write_rejects_nan_witness:
  "surface_ok demo_surface \<and> depth_on demo_surface \<and> in_bounds demo_surface 1 0 \<and>
   in_clip demo_surface 1 0 \<and> NaN \<notin> set (depth demo_surface) \<and>
   depth_test_write demo_surface 1 0 NaN = (False, demo_surface) \<and>
   NaN \<notin> set (depth (snd (depth_test_write demo_surface 1 0 (Fl (1 / 4)))))"
proof -
  have a: "depth_on demo_surface" "NaN \<notin> set (depth demo_surface)"
    by (simp_all add: demo_surface_def)
  show ?thesis
    using depth_test_write_rejects_nan[OF surface_ok_demo a(1) in_bounds_demo in_clip_demo] a
         surface_ok_demo in_bounds_demo in_clip_demo
    by simp
qed

section \<open>Resizing\<close>

lemma fold_update_const_length:
  "length (fold (\<lambda>x c. c[f x := v]) xs c) = length c"
  by (induction xs arbitrary: c) simp_all

lemma fold_update_const_nth:
  "k < length c \<Longrightarrow>
   fold (\<lambda>x c. c[f x := v]) xs c ! k = (if k \<in> f ` set xs then v else c ! k)"
proof (induction xs arbitrary: c)
  case Nil
  then show ?case by simp
next
  case (Cons a xs)
  have "k < length (c[f a := v])" using Cons.prems by simp
  from Cons.IH[OF this] show ?case using Cons.prems by (auto simp: nth_list_update)
qed

lemma fold2_update_const_length:
  "length (fold (\<lambda>y c. fold (\<lambda>x c. c[F x y := v]) xs c) ys c) = length c"
  by (induction ys arbitrary: c) (simp_all add: fold_update_const_length)

lemma fold2_update_const_nth:
  "k < length c \<Longrightarrow>
   fold (\<lambda>y c. fold (\<lambda>x c. c[F x y := v]) xs c) ys c ! k
     = (if \<exists>y\<in>set ys. \<exists>x\<in>set xs. k = F x y then v else c ! k)"
proof (induction ys arbitrary: c)
  case Nil
  then show ?case by simp
next
  case (Cons a ys)
  let ?c = "fold (\<lambda>x c. c[F x a := v]) xs c"
  have l: "k < length ?c" using Cons.prems by (simp add: fold_update_const_length)
  have n: "?c ! k = (if k \<in> (\<lambda>x. F x a) ` set xs then v else c ! k)"
    using fold_update_const_nth[OF Cons.prems, of "\<lambda>x. F x a" v xs] .
  show ?case using Cons.IH[OF l] n by auto
qed

lemma resize_color_length:
  "length (color (resize_framebuffer g w h)) = nat (max 1 w * max 1 h * 4)"
  by (simp add: resize_framebuffer_def Let_def fold2_update_const_length)

lemma resize_dims:
  "fb_w (resize_framebuffer g w h) = max 1 w" "fb_h (resize_framebuffer g w h) = max 1 h"
  by (simp_all add: resize_framebuffer_def Let_def)

lemma resize_framebuffer_surface_ok:
  assumes "max 1 w * max 1 h * 4 \<le> INT_MAX"
  shows "surface_ok (resize_framebuffer g w h)"
  using assms unfolding surface_ok_def resize_color_length resize_dims
  by (simp add: resize_framebuffer_def Let_def)

text \<open>C4, as the code has it: \<open>resize_framebuffer\<close> first raises each of \<open>w\<close> and \<open>h\<close>
  to at least 1. With \<open>W = max 1 w\<close> and \<open>H = max 1 h\<close>, and \<open>W * H * 4\<close> within the range
  of \<open>int\<close>, the color buffer afterwards has exactly \<open>W * H * 4\<close> bytes and every pixel of
  the surface has alpha 255.\<close>

theorem resize_framebuffer_size_alpha:
  assumes "max 1 w * max 1 h * 4 \<le> INT_MAX"
  shows "length (color (resize_framebuffer g w h)) = nat (max 1 w * max 1 h * 4) \<and>
         (\<forall>x y. in_bounds (resize_framebuffer g w h) x y \<longrightarrow>
            alpha (get_pixel (resize_framebuffer g w h) x y) = 255)"
proof (intro conjI allI impI)
  show "length (color (resize_framebuffer g w h)) = nat (max 1 w * max 1 h * 4)"
    by (rule resize_color_length)
next
  fix x y
  let ?g = "resize_framebuffer g w h"
  let ?W = "max 1 w" and ?H = "max 1 h"
  assume ib: "in_bounds ?g x y"
  then have b: "0 \<le> x" "x < ?W" "0 \<le> y" "y < ?H"
    by (auto simp: in_bounds_def resize_dims)
  have r: "idx_rgba ?W x y + 3 < length (color ?g)"
    using idx_rgba_in_range[OF resize_framebuffer_surface_ok[OF assms] ib]
    by (simp add: resize_dims)
  then have r0: "idx_rgba ?W x y + 3 < length (replicate (nat (?W * ?H * 4)) (0::u8))"
    by (simp add: resize_color_length)
  have mem: "\<exists>y'\<in>set [0..?H - 1]. \<exists>x'\<in>set [0..?W - 1]. idx_rgba ?W x y + 3 = idx_rgba ?W x' y' + 3"
    using b by (intro bexI[of _ y] bexI[of _ x]) auto
  have "color ?g ! (idx_rgba ?W x y + 3) = 255"
    using fold2_update_const_nth[OF r0, of "\<lambda>x y. idx_rgba ?W x y + 3" 255 "[0..?W - 1]" "[0..?H - 1]"] mem
    by (simp add: resize_framebuffer_def Let_def)
  then show "alpha (get_pixel ?g x y) = 255"
    using b by (simp add: get_pixel_def resize_dims Let_def Color_default_def)
qed

text \<open>C4 as stated fails for a width or height below 1: \<open>resize_framebuffer(0, 5)\<close>
  leaves a color buffer of 20 bytes, not of \<open>0 * 5 * 4\<close>.\<close>

theorem resize_framebuffer_clamp_counterexample:
  "length (color (resize_framebuffer demo_surface 0 5)) \<noteq> nat (0 * 5 * 4)"
  by (simp add: resize_color_length)

theorem resize_framebuffer_size_alpha_witness:
  "max 1 (2::int) * max 1 1 * 4 \<le> INT_MAX \<and>
   length (color (resize_framebuffer demo_surface 2 1)) = 8 \<and>
   in_bounds (resize_framebuffer demo_surface 2 1) 1 0 \<and>
   alpha (get_pixel (resize_framebuffer demo_surface 2 1) 1 0) = 255"
proof -
  have a: "max 1 (2::int) * max 1 1 * 4 \<le> INT_MAX" by (simp add: INT_MAX_def)
  have b: "in_bounds (resize_framebuffer demo_surface 2 1) 1 0"
    by (simp add: in_bounds_def resize_dims)
  show ?thesis using resize_framebuffer_size_alpha[OF a, of demo_surface] a b by simp
qed

section \<open>Post-processing: pass-through\<close>

text \<open>C5: when bloom and tone mapping are both disabled, \<open>build_postprocess_output\<close> with
  \<open>apply_postprocess = true\<close> returns the color buffer itself and the state unchanged (so no
  color, output or bloom scratch data is modified); it is the result of the call with
  \<open>apply_postprocess = false\<close>, and its bytes are those of the color buffer.\<close>

theorem postprocess_passthrough:
  assumes "\<not> bloom_enabled (bloom_s (post g))" "\<not> tone_enabled (tone_s (post g))"
  shows "build_postprocess_output g True = (ColorData, g) \<and>
         build_postprocess_output g True = build_postprocess_output g False \<and>
         buffer_bytes (fst (build_postprocess_output g True))
           (snd (build_postprocess_output g True)) = color g"
  using assms by (simp add: build_postprocess_output_def buffer_bytes_def)

theorem postprocess_passthrough_witness:
  "\<not> bloom_enabled (bloom_s (post demo_surface)) \<and> \<not> tone_enabled (tone_s (post demo_surface)) \<and>
   build_postprocess_output demo_surface True = (ColorData, demo_surface) \<and>
   buffer_bytes (fst (build_postprocess_output demo_surface True))
           (snd (build_postprocess_output demo_surface True)) = [10, 20, 30, 255, 200, 100, 50, 255]"
proof -
  have a: "\<not> bloom_enabled (bloom_s (post demo_surface))" "\<not> tone_enabled (tone_s (post demo_surface))"
    by (simp_all add: demo_surface_def demo_post_def)
  have c: "color demo_surface = [10, 20, 30, 255, 200, 100, 50, 255]" by (simp add: demo_surface_def)
  show ?thesis using postprocess_passthrough[OF a] a c by (simp add: buffer_bytes_def)
qed

section \<open>Degenerate triangles\<close>




section \<open>Meshes\<close>







section \<open>Bloom at threshold 1\<close>

lemma length_upd_all [simp]: "length (upd_all f js c) = length c"
  unfolding upd_all_def by (induction js arbitrary: c) simp_all








lemma upd3_const: "a[i + 0 := v, i + 1 := v, i + 2 := v] = upd_all (\<lambda>_. v) [i, i + 1, i + 2] a"
  by (simp add: upd_all_def)

































lemma length_vec_resize [simp]: "length (vec_resize xs n) = n"
  by (simp add: vec_resize_def)






end
